theory Spec2Isabelle
  imports Complex_Main
begin

section \<open>JavaScript values used by \<open>src/tle.js\<close>\<close>

text \<open>
  A JavaScript number is modelled by the real number it denotes, or by one of the three
  special values of IEEE arithmetic. Rounding to the nearest double and the sign of zero
  are not modelled: a finite value is exact. The range of doubles is modelled where a
  string is converted to a number (\<open>round_range\<close> below); arithmetic on finite values is
  exact and stays finite.
\<close>

datatype jsnum = NaN | Fin real | PInf | NInf

text \<open>
  The values a caller can pass where the code expects a line, an array of lines or a
  model name, and the values stored in the fields of an object.
\<close>

datatype jsval = Undefined | Num jsnum | Str string | Arr "jsval list"

datatype error = TypeError | ParseError | UnknownModelError | OrbitDecayedError | ConvergenceError

subsection \<open>Arithmetic on numbers\<close>

fun jneg :: "jsnum \<Rightarrow> jsnum" where
  "jneg NaN = NaN"
| "jneg (Fin a) = Fin (- a)"
| "jneg PInf = NInf"
| "jneg NInf = PInf"

fun jadd :: "jsnum \<Rightarrow> jsnum \<Rightarrow> jsnum" where
  "jadd NaN _ = NaN"
| "jadd _ NaN = NaN"
| "jadd (Fin a) (Fin b) = Fin (a + b)"
| "jadd PInf NInf = NaN"
| "jadd NInf PInf = NaN"
| "jadd PInf _ = PInf"
| "jadd NInf _ = NInf"
| "jadd _ PInf = PInf"
| "jadd _ NInf = NInf"

definition jsub :: "jsnum \<Rightarrow> jsnum \<Rightarrow> jsnum" where
  "jsub a b = jadd a (jneg b)"

text \<open>The sign of a number: \<open>-1\<close>, \<open>0\<close> or \<open>1\<close>; \<open>NaN\<close> has none.\<close>

fun jsign :: "jsnum \<Rightarrow> int option" where
  "jsign NaN = None"
| "jsign (Fin a) = Some (if a < 0 then - 1 else if a = 0 then 0 else 1)"
| "jsign PInf = Some 1"
| "jsign NInf = Some (- 1)"

definition jinf :: "int \<Rightarrow> jsnum" where
  "jinf s = (if s = 0 then NaN else if s < 0 then NInf else PInf)"

fun jmul :: "jsnum \<Rightarrow> jsnum \<Rightarrow> jsnum" where
  "jmul (Fin a) (Fin b) = Fin (a * b)"
| "jmul a b = (case (jsign a, jsign b) of
                 (Some s, Some t) \<Rightarrow> jinf (s * t)
               | _ \<Rightarrow> NaN)"

text \<open>
  Division. A finite non-zero number divided by zero is an infinity whose sign JavaScript
  takes from both operands; with unsigned zero the model takes it from the dividend.
\<close>

fun jdiv :: "jsnum \<Rightarrow> jsnum \<Rightarrow> jsnum" where
  "jdiv NaN _ = NaN"
| "jdiv _ NaN = NaN"
| "jdiv (Fin a) (Fin b) =
     (if b = 0 then (if a = 0 then NaN else if a < 0 then NInf else PInf) else Fin (a / b))"
| "jdiv (Fin a) _ = Fin 0"
| "jdiv a (Fin b) = (case jsign a of Some s \<Rightarrow> jinf (s * (if b < 0 then - 1 else 1)) | None \<Rightarrow> NaN)"
| "jdiv _ _ = NaN"

text \<open>\<open>a > b\<close>: false as soon as one side is \<open>NaN\<close>.\<close>

fun jgt :: "jsnum \<Rightarrow> jsnum \<Rightarrow> bool" where
  "jgt NaN _ = False"
| "jgt _ NaN = False"
| "jgt (Fin a) (Fin b) = (b < a)"
| "jgt PInf PInf = False"
| "jgt PInf _ = True"
| "jgt _ PInf = False"
| "jgt NInf _ = False"
| "jgt _ NInf = True"

text \<open>
  \<open>base ** exponent\<close> (Number::exponentiate), with unsigned zero: a zero base with a
  negative exponent gives \<open>+Infinity\<close>.
\<close>

definition is_integer :: "real \<Rightarrow> bool" where
  "is_integer y = (y = of_int \<lfloor>y\<rfloor>)"

definition is_odd_integer :: "real \<Rightarrow> bool" where
  "is_odd_integer y = (is_integer y \<and> odd \<lfloor>y\<rfloor>)"

fun jpow :: "jsnum \<Rightarrow> jsnum \<Rightarrow> jsnum" where
  "jpow b NaN = NaN"
| "jpow b (Fin y) =
    (if y = 0 then Fin 1
     else case b of
            NaN \<Rightarrow> NaN
          | PInf \<Rightarrow> if 0 < y then PInf else Fin 0
          | NInf \<Rightarrow> if 0 < y then (if is_odd_integer y then NInf else PInf) else Fin 0
          | Fin a \<Rightarrow>
              if a = 0 then (if 0 < y then Fin 0 else PInf)
              else if a < 0 \<and> \<not> is_integer y then NaN
              else if a < 0 then Fin (a powi \<lfloor>y\<rfloor>)
              else Fin (a powr y))"
| "jpow b PInf =
    (case b of
       NaN \<Rightarrow> NaN
     | Fin a \<Rightarrow> if 1 < \<bar>a\<bar> then PInf else if \<bar>a\<bar> = 1 then NaN else Fin 0
     | _ \<Rightarrow> PInf)"
| "jpow b NInf =
    (case b of
       NaN \<Rightarrow> NaN
     | Fin a \<Rightarrow> if 1 < \<bar>a\<bar> then Fin 0 else if \<bar>a\<bar> = 1 then NaN else PInf
     | _ \<Rightarrow> Fin 0)"

subsection \<open>Strings\<close>

text \<open>
  \<open>s.substr(start, length)\<close> and \<open>s.substring(start, end)\<close> for non-negative arguments
  with \<open>start \<le> end\<close>: both stop at the end of the string and return the empty string
  when \<open>start\<close> is beyond it.
\<close>

definition substr :: "string \<Rightarrow> nat \<Rightarrow> nat \<Rightarrow> string" where
  "substr s start len = take len (drop start s)"

definition substring :: "string \<Rightarrow> nat \<Rightarrow> nat \<Rightarrow> string" where
  "substring s start end = take (end - start) (drop start s)"

definition substring_from :: "string \<Rightarrow> nat \<Rightarrow> string" where
  "substring_from s start = drop start s"

text \<open>
  \<open>s.replace(pat, rep)\<close> with a string pattern of one character: only the first
  occurrence is replaced.
\<close>

fun replace_first :: "string \<Rightarrow> char \<Rightarrow> string \<Rightarrow> string" where
  "replace_first [] p r = []"
| "replace_first (c # cs) p r = (if c = p then r @ cs else c # replace_first cs p r)"

subsection \<open>\<open>Number(string)\<close>\<close>

text \<open>
  The conversion of ECMAScript (StringToNumber). A string is the list of its code units,
  each below 256. White space is trimmed at both ends, the empty string is \<open>0\<close>, then
  the text must be, as a whole, a binary, octal or hexadecimal integer literal, or an
  optionally signed \<open>Infinity\<close> or decimal literal (digits, an optional fraction, an
  optional exponent part); anything else is \<open>NaN\<close>. The white space below 256 is TAB,
  LF, VT, FF, CR, SP and the no-break space.
\<close>

definition is_white :: "char \<Rightarrow> bool" where
  "is_white c =
     (c \<in> set [CHR 0x09, CHR 0x0A, CHR 0x0B, CHR 0x0C, CHR 0x0D, CHR 0x20, CHR 0xA0])"

definition trim :: "string \<Rightarrow> string" where
  "trim s = rev (dropWhile is_white (rev (dropWhile is_white s)))"

definition is_digit :: "char \<Rightarrow> bool" where
  "is_digit c = (c \<in> set ''0123456789'')"

fun hex_val :: "char \<Rightarrow> nat option" where
  "hex_val c =
    (if is_digit c then Some (of_char c - 48)
     else if c \<in> set ''abcdef'' then Some (of_char c - 87)
     else if c \<in> set ''ABCDEF'' then Some (of_char c - 55)
     else None)"

definition digit_val :: "char \<Rightarrow> nat" where
  "digit_val c = of_char c - 48"

definition digits_val :: "string \<Rightarrow> nat" where
  "digits_val ds = foldl (\<lambda>a c. 10 * a + digit_val c) 0 ds"

text \<open>An integer literal in base \<open>b\<close>: at least one digit, every digit below \<open>b\<close>.\<close>

fun radix_val :: "nat \<Rightarrow> nat \<Rightarrow> string \<Rightarrow> nat option" where
  "radix_val b a [] = Some a"
| "radix_val b a (c # cs) =
    (case hex_val c of
       None \<Rightarrow> None
     | Some d \<Rightarrow> if d < b then radix_val b (b * a + d) cs else None)"

definition NonDecimalIntegerLiteral :: "string \<Rightarrow> nat option" where
  "NonDecimalIntegerLiteral s =
    (case s of
       c0 # c1 # d # ds \<Rightarrow>
         if c0 \<noteq> CHR ''0'' then None
         else if c1 = CHR ''x'' \<or> c1 = CHR ''X'' then radix_val 16 0 (d # ds)
         else if c1 = CHR ''o'' \<or> c1 = CHR ''O'' then radix_val 8 0 (d # ds)
         else if c1 = CHR ''b'' \<or> c1 = CHR ''B'' then radix_val 2 0 (d # ds)
         else None
     | _ \<Rightarrow> None)"

text \<open>
  The value of a literal is rounded to a double: at or beyond \<open>2^1024 - 2^970\<close>, half
  way between the largest double and \<open>2^1024\<close>, it becomes an infinity; at or below
  \<open>2^-1075\<close>, half the smallest double, it becomes zero.
\<close>

definition double_overflow :: real where
  "double_overflow = 2 ^ 1024 - 2 ^ 970"

definition double_underflow :: real where
  "double_underflow = 1 / 2 ^ 1075"

definition round_range :: "real \<Rightarrow> jsnum" where
  "round_range x =
    (if double_overflow \<le> x then PInf
     else if x \<le> - double_overflow then NInf
     else if \<bar>x\<bar> \<le> double_underflow then Fin 0
     else Fin x)"

definition pow10 :: "int \<Rightarrow> real" where
  "pow10 e = (if 0 \<le> e then 10 ^ nat e else 1 / 10 ^ nat (- e))"

text \<open>
  The exponent part: nothing (exponent \<open>0\<close>), or \<open>e\<close>/\<open>E\<close>, an optional sign and at least
  one digit, up to the end of the text.
\<close>

definition ExponentPart :: "string \<Rightarrow> int option" where
  "ExponentPart s =
    (case s of
       [] \<Rightarrow> Some 0
     | c # t \<Rightarrow>
         if c = CHR ''e'' \<or> c = CHR ''E'' then
           (let (neg, ds) = (case t of
                               x # r \<Rightarrow> if x = CHR ''-'' then (True, r)
                                        else if x = CHR ''+'' then (False, r)
                                        else (False, t)
                             | [] \<Rightarrow> (False, t))
            in if ds \<noteq> [] \<and> list_all is_digit ds
               then Some (if neg then - int (digits_val ds) else int (digits_val ds))
               else None)
         else None)"

definition StrUnsignedDecimalLiteral :: "string \<Rightarrow> jsnum" where
  "StrUnsignedDecimalLiteral s =
    (if s = ''Infinity'' then PInf
     else
       let ip = takeWhile is_digit s;
           r1 = dropWhile is_digit s;
           (fp, r2) = (case r1 of
                         c # t \<Rightarrow> if c = CHR ''.'' then (takeWhile is_digit t, dropWhile is_digit t)
                                  else ([], r1)
                       | [] \<Rightarrow> ([], r1))
       in if ip = [] \<and> fp = [] then NaN
          else case ExponentPart r2 of
                 None \<Rightarrow> NaN
               | Some e \<Rightarrow>
                   round_range
                     ((real (digits_val ip) + real (digits_val fp) / 10 ^ length fp) * pow10 e))"

definition StrDecimalLiteral :: "string \<Rightarrow> jsnum" where
  "StrDecimalLiteral s =
    (case s of
       c # t \<Rightarrow> if c = CHR ''-'' then jneg (StrUnsignedDecimalLiteral t)
                else if c = CHR ''+'' then StrUnsignedDecimalLiteral t
                else StrUnsignedDecimalLiteral s
     | [] \<Rightarrow> NaN)"

definition Number :: "string \<Rightarrow> jsnum" where
  "Number s =
    (let t = trim s
     in if t = [] then Fin 0
        else case NonDecimalIntegerLiteral t of
               Some n \<Rightarrow> round_range (real n)
             | None \<Rightarrow> StrDecimalLiteral t)"

subsection \<open>Dates\<close>

text \<open>
  A \<open>Date\<close> is its time value: a whole number of milliseconds since
  1970-01-01T00:00:00Z, or \<open>NaN\<close> for an invalid date. The functions below are the
  abstract operations of ECMAScript behind \<open>Date.UTC(year, 0, 1)\<close>, \<open>new Date(value)\<close>,
  \<open>getTime()\<close> and \<open>setTime(time)\<close>.
\<close>

definition truncate_real :: "real \<Rightarrow> real" where
  "truncate_real x = (if 0 \<le> x then of_int \<lfloor>x\<rfloor> else of_int \<lceil>x\<rceil>)"

definition TimeClip :: "jsnum \<Rightarrow> jsnum" where
  "TimeClip t =
    (case t of
       Fin x \<Rightarrow> if \<bar>x\<bar> > 8640000000000000 then NaN else Fin (truncate_real x)
     | _ \<Rightarrow> NaN)"

definition DayFromYear :: "int \<Rightarrow> int" where
  "DayFromYear y =
     365 * (y - 1970) + (y - 1969) div 4 - (y - 1901) div 100 + (y - 1601) div 400"

definition MakeFullYear :: "jsnum \<Rightarrow> jsnum" where
  "MakeFullYear year =
    (case year of
       Fin y \<Rightarrow> (let truncated = truncate_real y
                 in if 0 \<le> truncated \<and> truncated \<le> 99 then Fin (1900 + truncated)
                    else Fin truncated)
     | _ \<Rightarrow> year)"

text \<open>\<open>Date.UTC(year, 0, 1)\<close>: midnight UTC at the start of 1 January.\<close>

definition Date_UTC :: "jsnum \<Rightarrow> jsnum" where
  "Date_UTC year =
    (case MakeFullYear year of
       Fin yr \<Rightarrow> TimeClip (Fin (of_int (DayFromYear \<lfloor>yr\<rfloor>) * 86400000))
     | _ \<Rightarrow> NaN)"

definition new_Date :: "jsnum \<Rightarrow> jsnum" where
  "new_Date v = TimeClip v"

definition setTime :: "jsnum \<Rightarrow> jsnum" where
  "setTime t = TimeClip t"

section \<open>The element set: class \<open>TLE\<close>\<close>

text \<open>
  The propagation record \<open>this.satrec\<close> is a JavaScript object: a finite map from field
  names to values, here numbers and strings. \<open>None\<close> in the field \<open>satrec\<close> of an
  element set stands for \<open>typeof this.satrec === 'undefined'\<close>.
\<close>

datatype field = FNum jsnum | FStr string

type_synonym satrec = "string \<rightharpoonup> field"

record tle =
  raw :: "jsval list"
  name :: string
  satid :: jsnum
  launch_year :: jsnum
  launch_number :: jsnum
  launch_piece :: string
  epoch :: jsnum
  mean_motion_dot :: jsnum
  mean_motion_dot_dot :: jsnum
  bstar :: jsnum
  elsetnum :: jsnum
  inclination :: jsnum
  raan :: jsnum
  eccen :: jsnum
  arg_of_perigee :: jsnum
  mean_anomaly :: jsnum
  mean_motion :: jsnum
  revnum :: jsnum
  satrec :: "satrec option"

text \<open>
  The constructor tests \<open>typeof line3 === 'undefined'\<close>, but its parameters are
  \<open>lines\<close>, \<open>tline2\<close> and \<open>tline3\<close>: \<open>line3\<close> is bound nowhere in the module, and
  \<open>typeof\<close> of an unbound identifier is \<open>'undefined'\<close>.
\<close>

definition typeof_line3 :: string where
  "typeof_line3 = ''undefined''"

text \<open>\<open>xs[i]\<close> on an array: \<open>undefined\<close> out of range.\<close>

definition index :: "jsval list \<Rightarrow> nat \<Rightarrow> jsval" where
  "index xs i = (if i < length xs then xs ! i else Undefined)"

text \<open>Lines 41 to 46: the launch year.\<close>

definition parse_launch_year :: "string \<Rightarrow> jsnum" where
  "parse_launch_year line1 =
    (let launch_year = Number (substr line1 9 2)
     in if jgt launch_year (Fin 50) then jadd launch_year (Fin 1900)
        else jadd launch_year (Fin 2000))"

text \<open>Lines 49 to 56: the epoch.\<close>

definition parse_epoch_year :: "string \<Rightarrow> jsnum" where
  "parse_epoch_year line1 =
    (let epoch_year = Number (substr line1 18 2)
     in if jgt epoch_year (Fin 57) then jadd epoch_year (Fin 1900)
        else jadd epoch_year (Fin 2000))"

definition parse_epoch :: "string \<Rightarrow> jsnum" where
  "parse_epoch line1 =
    (let epoch_year = parse_epoch_year line1;
         epoch_day_of_year = Number (substr line1 20 12);
         epoch = new_Date (Date_UTC epoch_year)
     in setTime (jadd epoch (jmul (jmul (jsub epoch_day_of_year (Fin 1)) (Fin 86400)) (Fin 1000))))"

text \<open>Lines 58 to 61: the two fields with an exponent.\<close>

definition parse_mean_motion_dot_dot :: "string \<Rightarrow> jsnum" where
  "parse_mean_motion_dot_dot line1 =
    (let mean_motion_dot_dot = Number (replace_first (substr line1 45 7) CHR ''-'' ''E-'')
     in if substr line1 44 1 = ''-'' then jneg mean_motion_dot_dot
        else mean_motion_dot_dot)"

definition parse_bstar :: "string \<Rightarrow> jsnum" where
  "parse_bstar line1 = Number (''0.'' @ replace_first (substr line1 54 7) CHR ''-'' ''E-'')"

text \<open>Lines 40 to 73, once both lines are known to be strings.\<close>

definition parse_lines :: "jsval list \<Rightarrow> string \<Rightarrow> string \<Rightarrow> string \<Rightarrow> tle" where
  "parse_lines lines nm line1 line2 =
    \<lparr> raw = lines,
      name = nm,
      satid = Number (substr line1 2 5),
      launch_year = parse_launch_year line1,
      launch_number = Number (substr line1 11 3),
      launch_piece = substr line1 14 3,
      epoch = parse_epoch line1,
      mean_motion_dot = Number (substr line1 33 10),
      mean_motion_dot_dot = parse_mean_motion_dot_dot line1,
      bstar = parse_bstar line1,
      elsetnum = Number (substr line1 64 4),
      inclination = Number (substr line2 8 8),
      raan = Number (substr line2 17 8),
      eccen = Number (''0.'' @ substr line2 26 7),
      arg_of_perigee = Number (substr line2 34 8),
      mean_anomaly = Number (substr line2 43 8),
      mean_motion = Number (substr line2 52 11),
      revnum = Number (substr line2 63 5),
      satrec = None \<rparr>"

text \<open>
  Lines 6 to 38: the input format, the name and the two key lines. Calling \<open>substring\<close>
  or \<open>substr\<close> on a value that is not a string throws a \<open>TypeError\<close>, and the
  constructor then yields no object.
\<close>

definition select_lines :: "jsval list \<Rightarrow> error + (string \<times> jsval \<times> jsval)" where
  "select_lines lines =
    (if length lines = 3 then
       (case index lines 0 of
          Str l0 \<Rightarrow>
            Inr (if substring l0 0 1 = ''0'' then substring_from l0 2 else l0,
                 index lines 1, index lines 2)
        | _ \<Rightarrow> Inl TypeError)
     else Inr (''unknown'', index lines 0, index lines 1))"

definition TLE_constructor :: "jsval \<Rightarrow> jsval \<Rightarrow> jsval \<Rightarrow> error + tle" where
  "TLE_constructor lines tline2 tline3 =
    (let lines' = (case lines of
                     Arr xs \<Rightarrow> xs
                   | _ \<Rightarrow> if typeof_line3 = ''undefined'' then [lines, tline2]
                          else [lines, tline2, tline3])
     in case select_lines lines' of
          Inl e \<Rightarrow> Inl e
        | Inr (nm, l1, l2) \<Rightarrow>
            (case l1 of
               Str line1 \<Rightarrow>
                 (case l2 of
                    Str line2 \<Rightarrow> Inr (parse_lines lines' nm line1 line2)
                  | _ \<Rightarrow> Inl TypeError)
             | _ \<Rightarrow> Inl TypeError))"


subsection \<open>Exponent fields as the format defines them\<close>

text \<open>
  The value of an eight-character exponent field \<open>smmmmmxd\<close> of line 1 as the
  specification words it: the sign \<open>s\<close> (blank, \<open>+\<close> or \<open>-\<close>), the digits \<open>mmmmm\<close> after
  an implied \<open>0.\<close>, and the power of ten given by the exponent sign \<open>x\<close> and the digit
  \<open>d\<close>. It is compared below with what the constructor stores.
\<close>

definition implied_decimal_value :: "string \<Rightarrow> real option" where
  "implied_decimal_value f =
    (case f of
       [s, m1, m2, m3, m4, m5, x, d] \<Rightarrow>
         if s \<in> set '' +-'' \<and> list_all is_digit [m1, m2, m3, m4, m5, d] \<and> x \<in> set ''+-''
         then Some ((if s = CHR ''-'' then - 1 else 1)
                    * (real (digits_val [m1, m2, m3, m4, m5]) / 10 ^ 5)
                    * pow10 ((if x = CHR ''-'' then - 1 else 1) * int (digit_val d)))
         else None
     | _ \<Rightarrow> None)"

subsection \<open>Element sets used below\<close>

text \<open>
  The element set of the ISS printed in the article that \<open>src/tle.js\<close> cites, with its
  name line in the three-line form; line 1 of two element sets of the SGP4 verification
  file, one with a negative second derivative of the mean motion and one with a positive
  exponent sign; a line 1 whose epoch year field is \<open>57\<close>; a line 1 whose catalogue
  number is not a number, and one where the launch year, the epoch year and the second
  derivative of the mean motion are not numbers either.
\<close>

definition iss_name :: string where
  "iss_name = ''0 ISS (ZARYA)''"

definition iss_line1 :: string where
  "iss_line1 = ''1 25544U 98067A   08264.51782528 -.00002182  00000-0 -11606-4 0  2927''"

definition iss_line2 :: string where
  "iss_line2 = ''2 25544  51.6416 247.4627 0006703 130.5360 325.0288 15.72125391563537''"

definition sat16925_line1 :: string where
  "sat16925_line1 = ''1 16925U 86065D   06151.67415771  .02550794 -30915-6  18784-3 0  4486''"

definition sat20413_line1 :: string where
  "sat20413_line1 = ''1 20413U 83020D   05363.79166667  .00000000  00000-0  00000+0 0  7041''"

definition epoch57_line1 :: string where
  "epoch57_line1 = ''1 00002U 57001B   57338.50000000  .00000023  00000-0  28098-4 0  4753''"

definition malformed_line1 :: string where
  "malformed_line1 = ''1 2554XU 98067A   08264.51782528 -.00002182  00000-0 -11606-4 0  2927''"

definition garbled_line1 :: string where
  "garbled_line1 = ''1 2554XU 9X067A   0Y264.51782528 -.00002182  0000Z-0 -11606-4 0  2927''"

section \<open>The driver: \<open>TLE.sgp4\<close>\<close>

text \<open>
  \<open>src/tle.js\<close> takes \<open>getgravconst\<close>, \<open>sgp4init\<close> and \<open>sgp4\<close> from \<open>sgp4.js\<close> and the
  method \<open>jd\<close> of dates from the astronomy utilities; neither file is among the sources,
  so the four functions are parameters of the driver. Each of the first three receives
  the record by reference: the model hands the record over and takes back the record as
  the callee leaves it, together with the exception thrown, if any. A failure of the
  propagation step, however the step signals it, is the \<open>Inl\<close> of its result.
\<close>

datatype results = Results "jsnum list" "jsnum list"

record sgp4lib =
  getgravconst :: "jsval \<Rightarrow> satrec \<Rightarrow> error option \<times> satrec"
  sgp4init :: "jsval list \<Rightarrow> satrec \<Rightarrow> error option \<times> satrec"
  sgp4 :: "satrec \<Rightarrow> jsnum \<Rightarrow> (error + results) \<times> satrec"
  jd :: "jsnum \<Rightarrow> jsnum"

text \<open>Reading a field of the record where a number is expected (\<open>ToNumber\<close>).\<close>

definition getnum :: "satrec \<Rightarrow> string \<Rightarrow> jsnum" where
  "getnum rec k =
    (case rec k of
       None \<Rightarrow> NaN
     | Some (FNum x) \<Rightarrow> x
     | Some (FStr s) \<Rightarrow> Number s)"

definition twopi :: real where
  "twopi = pi * 2"

definition deg2rad :: real where
  "deg2rad = pi / 180"

text \<open>Passing a field of the record to a function: the value as it is stored.\<close>

definition getval :: "satrec \<Rightarrow> string \<Rightarrow> jsval" where
  "getval rec k =
    (case rec k of
       None \<Rightarrow> Undefined
     | Some (FNum x) \<Rightarrow> Num x
     | Some (FStr s) \<Rightarrow> Str s)"

text \<open>
  Lines 87 to 105: the fields the driver writes into the record that \<open>getgravconst\<close>
  has filled, one assignment after the other, each reading the record as it then is.
\<close>

definition satrec_fields :: "sgp4lib \<Rightarrow> tle \<Rightarrow> satrec \<Rightarrow> satrec" where
  "satrec_fields lib this rec0 =
    (let r1 = rec0(''no'' \<mapsto> FNum (jdiv (mean_motion this) (Fin (1440 / twopi))));
         r2 = r1(''no_kozai'' := r1 ''no'');
         r3 = r2(''bstar'' \<mapsto> FNum (bstar this));
         r4 = r3(''a'' \<mapsto> FNum (jpow (jmul (getnum r3 ''no'') (getnum r3 ''tumin''))
                                    (Fin (- 2 / 3))));
         r5 = r4(''ndot'' \<mapsto> FNum (jdiv (mean_motion_dot this) (Fin (1440 * 1440 / twopi))));
         r6 = r5(''nddot'' \<mapsto> FNum (jdiv (mean_motion_dot_dot this)
                                         (Fin (1440 * 1440 * 1440 / twopi))));
         r7 = r6(''inclo'' \<mapsto> FNum (jmul (inclination this) (Fin deg2rad)));
         r8 = r7(''nodeo'' \<mapsto> FNum (jmul (raan this) (Fin deg2rad)));
         r9 = r8(''argpo'' \<mapsto> FNum (jmul (arg_of_perigee this) (Fin deg2rad)));
         r10 = r9(''mo'' \<mapsto> FNum (jmul (mean_anomaly this) (Fin deg2rad)));
         r11 = r10(''ecco'' \<mapsto> FNum (eccen this));
         r12 = r11(''alta'' \<mapsto> FNum (jsub (jmul (getnum r11 ''a'')
                                                (jsub (Fin 1) (getnum r11 ''ecco''))) (Fin 1)));
         r13 = r12(''altp'' \<mapsto> FNum (jsub (jmul (getnum r12 ''a'')
                                                (jadd (Fin 1) (getnum r12 ''ecco''))) (Fin 1)));
         r14 = r13(''jdsatepoch'' \<mapsto> FNum (jd lib (epoch this)));
         r15 = r14(''init'' \<mapsto> FStr ''y'')
     in r15(''t'' \<mapsto> FNum (Fin 0)))"

text \<open>Lines 108 to 111: the arguments of \<open>sgp4init\<close> before the record itself.\<close>

definition sgp4init_args :: "tle \<Rightarrow> jsval \<Rightarrow> satrec \<Rightarrow> jsval list" where
  "sgp4init_args this whichconst rec =
    [whichconst, Str ''i'', Num (satid this),
     Num (jsub (getnum rec ''jdsatepoch'') (Fin 2433281.5)),
     getval rec ''bstar'', getval rec ''ndot'', getval rec ''nddot'',
     getval rec ''ecco'', getval rec ''argpo'', getval rec ''inclo'',
     getval rec ''mo'', getval rec ''no'', getval rec ''nodeo'']"

text \<open>
  Lines 85 to 111: the body of \<open>if (typeof this.satrec === 'undefined')\<close>. The record is
  stored in \<open>this.satrec\<close> before anything else runs, so it stays there, as far as it was
  filled, when \<open>getgravconst\<close> or \<open>sgp4init\<close> throws.
\<close>

definition init_satrec :: "sgp4lib \<Rightarrow> tle \<Rightarrow> jsval \<Rightarrow> error option \<times> tle" where
  "init_satrec lib this whichconst =
    (case getgravconst lib whichconst Map.empty of
       (Some e, rec) \<Rightarrow> (Some e, this\<lparr>satrec := Some rec\<rparr>)
     | (None, rec0) \<Rightarrow>
         (let rec1 = satrec_fields lib this rec0
          in case sgp4init lib (sgp4init_args this whichconst rec1) rec1 of
               (err, rec2) \<Rightarrow> (err, this\<lparr>satrec := Some rec2\<rparr>)))"

text \<open>Line 116: the time since the epoch of the element set, in minutes.\<close>

definition tsince_of :: "sgp4lib \<Rightarrow> satrec \<Rightarrow> jsnum \<Rightarrow> jsnum" where
  "tsince_of lib rec thedate =
     jmul (jsub (jd lib thedate) (getnum rec ''jdsatepoch'')) (Fin 1440)"

text \<open>
  Lines 75 to 121. \<open>thedate\<close> is a date, given by its time value. The method returns
  what the low-level step returns; an exception thrown during the initialisation leaves
  the method before the step is reached.
\<close>

definition TLE_sgp4 :: "sgp4lib \<Rightarrow> tle \<Rightarrow> jsnum \<Rightarrow> jsval \<Rightarrow> (error + results) \<times> tle" where
  "TLE_sgp4 lib this thedate whichconst0 =
    (let whichconst = (if whichconst0 = Undefined then Str ''wgs84'' else whichconst0);
         (err, this1) = (case satrec this of
                           None \<Rightarrow> init_satrec lib this whichconst
                         | Some rec \<Rightarrow> (None, this))
     in case err of
          Some e \<Rightarrow> (Inl e, this1)
        | None \<Rightarrow>
            (case satrec this1 of
               None \<Rightarrow> (Inl TypeError, this1)
             | Some rec \<Rightarrow>
                 (let tsince = tsince_of lib rec thedate;
                      (results, rec') = sgp4 lib rec tsince
                  in (results, this1\<lparr>satrec := Some rec'\<rparr>))))"

text \<open>
  The record a call hands to the step: the cached one, or on a first call the one the
  initialisation leaves; none when the initialisation throws.
\<close>

definition record_used :: "sgp4lib \<Rightarrow> tle \<Rightarrow> jsval \<Rightarrow> satrec option" where
  "record_used lib this whichconst0 =
    (case satrec this of
       Some rec \<Rightarrow> Some rec
     | None \<Rightarrow>
         (case init_satrec lib this (if whichconst0 = Undefined then Str ''wgs84'' else whichconst0) of
            (Some e, this1) \<Rightarrow> None
          | (None, this1) \<Rightarrow> satrec this1))"

text \<open>A sequence of propagation requests on one element set, each given by its date and
  its model name; the element set is threaded through the calls.\<close>

fun propagate_all :: "sgp4lib \<Rightarrow> tle \<Rightarrow> (jsnum \<times> jsval) list \<Rightarrow> tle" where
  "propagate_all lib this [] = this"
| "propagate_all lib this ((thedate, whichconst) # calls) =
     propagate_all lib (snd (TLE_sgp4 lib this thedate whichconst)) calls"

section \<open>The parts of \<open>sgp4.js\<close> the driver relies on\<close>

subsection \<open>The gravity model table\<close>

text \<open>
  Modelled from the spec: \<open>getgravconst\<close> of \<open>sgp4.js\<close>, which is not among the sources.
  Section 4.2: \<open>lookup(name)\<close> returns the named constant bundle or fails with an
  unknown-model error, without mutation; exactly two names are supported, the two WGS
  constant sets, written \<open>'wgs72'\<close> and \<open>'wgs84'\<close> in \<open>src/tle.js\<close> and in the validation
  test. The specification does not list the constants, so the bundles are a parameter.
\<close>

datatype gravity_model = WGS72 | WGS84

definition lookup :: "jsval \<Rightarrow> error + gravity_model" where
  "lookup nm =
    (if nm = Str ''wgs72'' then Inr WGS72
     else if nm = Str ''wgs84'' then Inr WGS84
     else Inl UnknownModelError)"

definition spec_getgravconst ::
    "(gravity_model \<Rightarrow> satrec) \<Rightarrow> jsval \<Rightarrow> satrec \<Rightarrow> error option \<times> satrec" where
  "spec_getgravconst bundle whichconst rec =
    (case lookup whichconst of
       Inl e \<Rightarrow> (Some e, rec)
     | Inr g \<Rightarrow> (None, rec ++ bundle g))"

subsection \<open>The propagation step\<close>

text \<open>
  Modelled from the spec: \<open>sgp4\<close> of \<open>sgp4.js\<close>, which is not among the sources. Section
  4.4 gives the order of the step: secular update of the mean elements (with the
  resonance integration for deep-space records), solution of Kepler's equation by an
  iteration with a bounded count and a convergence tolerance, periodic corrections,
  conversion to a Cartesian position and velocity. It names three conditions to detect:
  the solver not converging within its bound, the corrected eccentricity outside
  \<open>[0, 1)\<close>, the radius below the equatorial radius of the gravity model. Section 7 gives
  the failures their types. The formulas and constants are not in the specification:
  they are the fields of \<open>step_model\<close>.
\<close>

record 'e step_model =
  secular :: "satrec \<Rightarrow> jsnum \<Rightarrow> 'e"
  kepler_start :: "'e \<Rightarrow> real"
  kepler_next :: "'e \<Rightarrow> real \<Rightarrow> real"
  tolerance :: real
  max_iterations :: nat
  corrected_eccentricity :: "'e \<Rightarrow> real \<Rightarrow> real"
  to_cartesian :: "'e \<Rightarrow> real \<Rightarrow> real list \<times> real list"
  equatorial_radius :: "satrec \<Rightarrow> real"

text \<open>The solver: at most \<open>n\<close> iterations, stopping when two successive values are
  closer than the tolerance.\<close>

fun kepler_solve :: "(real \<Rightarrow> real) \<Rightarrow> real \<Rightarrow> nat \<Rightarrow> real \<Rightarrow> real option" where
  "kepler_solve nxt tol 0 E = None"
| "kepler_solve nxt tol (Suc n) E =
    (let E' = nxt E
     in if \<bar>E' - E\<bar> < tol then Some E' else kepler_solve nxt tol n E')"

definition magnitude :: "real list \<Rightarrow> real" where
  "magnitude xs = sqrt (sum_list (map (\<lambda>x. x * x) xs))"

definition spec_step :: "'e step_model \<Rightarrow> satrec \<Rightarrow> jsnum \<Rightarrow> error + results" where
  "spec_step M rec tsince =
    (let el = secular M rec tsince
     in case kepler_solve (kepler_next M el) (tolerance M) (max_iterations M) (kepler_start M el) of
          None \<Rightarrow> Inl ConvergenceError
        | Some E \<Rightarrow>
            (let ecc = corrected_eccentricity M el E
             in if ecc < 0 \<or> 1 \<le> ecc then Inl OrbitDecayedError
                else (let (r, v) = to_cartesian M el E
                      in if magnitude r < equatorial_radius M rec then Inl OrbitDecayedError
                         else Inr (Results (map Fin r) (map Fin v)))))"

text \<open>None of the three conditions holds: the solver returns \<open>E\<close>, the corrected
  eccentricity lies in \<open>[0, 1)\<close> and the radius is not below the equatorial radius.\<close>

definition no_degenerate_condition :: "'e step_model \<Rightarrow> satrec \<Rightarrow> jsnum \<Rightarrow> real \<Rightarrow> bool" where
  "no_degenerate_condition M rec tsince E =
    (let el = secular M rec tsince
     in kepler_solve (kepler_next M el) (tolerance M) (max_iterations M) (kepler_start M el)
          = Some E
        \<and> 0 \<le> corrected_eccentricity M el E \<and> corrected_eccentricity M el E < 1
        \<and> equatorial_radius M rec \<le> magnitude (fst (to_cartesian M el E)))"

text \<open>Section 5: the step reads the record and leaves it as it is.\<close>

definition spec_sgp4 :: "'e step_model \<Rightarrow> satrec \<Rightarrow> jsnum \<Rightarrow> (error + results) \<times> satrec" where
  "spec_sgp4 M rec tsince = (spec_step M rec tsince, rec)"

text \<open>
  Modelled from the spec: sections 3 and 5 say of the propagation step of \<open>sgp4.js\<close>
  (not among the sources) that it never mutates the record it is given.
\<close>

definition step_read_only :: "sgp4lib \<Rightarrow> bool" where
  "step_read_only lib = (\<forall>rec tsince. snd (sgp4 lib rec tsince) = rec)"

subsection \<open>Instances used below\<close>

text \<open>
  A library whose table knows one time unit for every name, whose initialiser leaves
  the record as the driver filled it, whose step
  reads the record's epoch and returns the time since it as a position, and whose dates
  are numbered in days; with it, the ISS element set as the constructor returns it.
\<close>

definition example_lib :: sgp4lib where
  "example_lib =
    \<lparr> getgravconst = (\<lambda>whichconst rec. (None, rec(''tumin'' \<mapsto> FNum (Fin 1)))),
      sgp4init = (\<lambda>args rec. (None, rec)),
      sgp4 = (\<lambda>rec tsince. (Inr (Results [tsince] [getnum rec ''jdsatepoch'']), rec)),
      jd = (\<lambda>t. jdiv t (Fin 86400000)) \<rparr>"

definition iss_tle :: tle where
  "iss_tle = parse_lines [Str iss_line1, Str iss_line2] ''unknown'' iss_line1 iss_line2"

text \<open>
  A step model over elements without content: the solver adds \<open>inc\<close> in each of at most
  three iterations, with tolerance one half; the corrected eccentricity is \<open>ecc\<close>; the
  position is \<open>(x, 0, 0)\<close>; the equatorial radius is 6378.
\<close>

definition example_model :: "real \<Rightarrow> real \<Rightarrow> real \<Rightarrow> unit step_model" where
  "example_model inc ecc x =
    \<lparr> secular = (\<lambda>rec tsince. ()),
      kepler_start = (\<lambda>el. 0),
      kepler_next = (\<lambda>el E. E + inc),
      tolerance = 1 / 2,
      max_iterations = 3,
      corrected_eccentricity = (\<lambda>el E. ecc),
      to_cartesian = (\<lambda>el E. ([x, 0, 0], [0, 0, 0])),
      equatorial_radius = (\<lambda>rec. 6378) \<rparr>"

text \<open>
  The same library with the table of the specification, holding for each model its
  equatorial radius in kilometres and a time unit.
\<close>

definition example_bundle :: "gravity_model \<Rightarrow> satrec" where
  "example_bundle g =
    [''radiusearthkm'' \<mapsto> FNum (Fin (case g of WGS72 \<Rightarrow> 6378.135 | WGS84 \<Rightarrow> 6378.137)),
     ''tumin'' \<mapsto> FNum (Fin 1)]"

definition table_lib :: sgp4lib where
  "table_lib = example_lib\<lparr>getgravconst := spec_getgravconst example_bundle\<rparr>"

definition iss_tle_cached :: tle where
  "iss_tle_cached = iss_tle\<lparr>satrec := Some [''jdsatepoch'' \<mapsto> FNum (Fin 0)]\<rparr>"

section \<open>Properties of the parser\<close>

text \<open>Within the range of doubles a literal keeps its value.\<close>

lemma round_range_zero: "round_range 0 = Fin 0"
  by (simp add: round_range_def double_overflow_def double_underflow_def)

lemma round_range_moderate:
  assumes "1 / 10 ^ 20 \<le> \<bar>x\<bar>" and "\<bar>x\<bar> \<le> 10 ^ 20"
  shows "round_range x = Fin x"
proof -
  have a: "(10::real) ^ 20 < double_overflow"
    by (simp add: double_overflow_def)
  have b: "double_underflow < 1 / (10::real) ^ 20"
    by (simp add: double_underflow_def)
  show ?thesis
    using assms a b by (auto simp: round_range_def)
qed

lemma round_range_nat: "n \<le> 10 ^ 20 \<Longrightarrow> round_range (real n) = Fin (real n)"
proof (cases "n = 0")
  case True
  then show ?thesis by (simp add: round_range_zero)
next
  case False
  assume "n \<le> 10 ^ 20"
  then have "real n \<le> real (10 ^ 20)"
    by (rule of_nat_mono)
  moreover have "1 \<le> real n"
    using False by simp
  ultimately show ?thesis
    by (intro round_range_moderate) simp_all
qed

lemmas num_defs = Number_def trim_def is_white_def NonDecimalIntegerLiteral_def
  StrDecimalLiteral_def StrUnsignedDecimalLiteral_def ExponentPart_def is_digit_def
  digits_val_def digit_val_def pow10_def round_range_zero round_range_moderate

text \<open>Beyond the range a literal is an infinity or zero; a no-break space is trimmed.\<close>

lemma Number_out_of_range:
  "Number ''1e400'' = PInf" "Number ''-1e400'' = NInf" "Number ''1e-400'' = Fin 0"
  "Number [CHR 0xA0, CHR ''7'', CHR 0xA0] = Fin 7"
  by (simp_all add: Number_def trim_def is_white_def NonDecimalIntegerLiteral_def
      StrDecimalLiteral_def StrUnsignedDecimalLiteral_def ExponentPart_def is_digit_def
      digits_val_def digit_val_def pow10_def round_range_def double_overflow_def
      double_underflow_def)

lemmas date_defs = new_Date_def setTime_def Date_UTC_def MakeFullYear_def TimeClip_def
  truncate_real_def DayFromYear_def jsub_def

lemma parse_lines_sel [simp]:
  "raw (parse_lines ls nm l1 l2) = ls"
  "name (parse_lines ls nm l1 l2) = nm"
  "satid (parse_lines ls nm l1 l2) = Number (substr l1 2 5)"
  "launch_year (parse_lines ls nm l1 l2) = parse_launch_year l1"
  "launch_number (parse_lines ls nm l1 l2) = Number (substr l1 11 3)"
  "launch_piece (parse_lines ls nm l1 l2) = substr l1 14 3"
  "epoch (parse_lines ls nm l1 l2) = parse_epoch l1"
  "mean_motion_dot (parse_lines ls nm l1 l2) = Number (substr l1 33 10)"
  "mean_motion_dot_dot (parse_lines ls nm l1 l2) = parse_mean_motion_dot_dot l1"
  "bstar (parse_lines ls nm l1 l2) = parse_bstar l1"
  "elsetnum (parse_lines ls nm l1 l2) = Number (substr l1 64 4)"
  "inclination (parse_lines ls nm l1 l2) = Number (substr l2 8 8)"
  "raan (parse_lines ls nm l1 l2) = Number (substr l2 17 8)"
  "eccen (parse_lines ls nm l1 l2) = Number (''0.'' @ substr l2 26 7)"
  "arg_of_perigee (parse_lines ls nm l1 l2) = Number (substr l2 34 8)"
  "mean_anomaly (parse_lines ls nm l1 l2) = Number (substr l2 43 8)"
  "mean_motion (parse_lines ls nm l1 l2) = Number (substr l2 52 11)"
  "revnum (parse_lines ls nm l1 l2) = Number (substr l2 63 5)"
  "satrec (parse_lines ls nm l1 l2) = None"
  by (simp_all add: parse_lines_def)

text \<open>The three ways of handing lines to the constructor.\<close>

lemma TLE_constructor_two:
  "TLE_constructor (Arr [Str l1, Str l2]) u v =
     Inr (parse_lines [Str l1, Str l2] ''unknown'' l1 l2)"
  by (simp add: TLE_constructor_def select_lines_def index_def)

lemma TLE_constructor_three:
  "TLE_constructor (Arr [Str l0, Str l1, Str l2]) u v =
     Inr (parse_lines [Str l0, Str l1, Str l2]
            (if substring l0 0 1 = ''0'' then substring_from l0 2 else l0) l1 l2)"
  by (simp add: TLE_constructor_def select_lines_def index_def)

lemma TLE_constructor_args:
  "TLE_constructor (Str l1) (Str l2) v =
     Inr (parse_lines [Str l1, Str l2] ''unknown'' l1 l2)"
  by (simp add: TLE_constructor_def select_lines_def index_def typeof_line3_def)

text \<open>The only exception the constructor can throw is a \<open>TypeError\<close>.\<close>

lemma select_lines_error: "select_lines ls = Inl e \<Longrightarrow> e = TypeError"
  by (auto simp: select_lines_def split: if_splits jsval.splits)

lemma TLE_constructor_error: "TLE_constructor a b c = Inl e \<Longrightarrow> e = TypeError"
  by (auto simp: TLE_constructor_def Let_def
      split: sum.splits prod.splits jsval.splits dest: select_lines_error)

lemma TLE_constructor_Inr:
  "TLE_constructor a b c = Inr t \<Longrightarrow> \<exists>ls nm l1 l2. t = parse_lines ls nm l1 l2"
  by (auto simp: TLE_constructor_def Let_def split: sum.splits prod.splits jsval.splits)

subsection \<open>Two-digit fields\<close>

lemma digit_not_white: "is_digit c \<Longrightarrow> \<not> is_white c"
  by (auto simp: is_digit_def is_white_def)

lemma digit_not_sign:
  "is_digit c \<Longrightarrow> c \<noteq> CHR ''-'' \<and> c \<noteq> CHR ''+'' \<and> c \<noteq> CHR ''.'' \<and> c \<noteq> CHR ''I''"
  by (auto simp: is_digit_def)

lemma digit_val_le: "is_digit c \<Longrightarrow> digit_val c \<le> 9"
  by (auto simp: is_digit_def digit_val_def)

lemma Number_two_digits:
  assumes "is_digit a" "is_digit b"
  shows "Number [a, b] = Fin (real (10 * digit_val a + digit_val b))"
proof -
  have r: "round_range (real (10 * digit_val a + digit_val b))
      = Fin (real (10 * digit_val a + digit_val b))"
    using digit_val_le [OF assms(1)] digit_val_le [OF assms(2)]
    by (intro round_range_nat) simp
  have t: "trim [a, b] = [a, b]"
    using assms by (simp add: trim_def digit_not_white)
  have n: "NonDecimalIntegerLiteral [a, b] = None"
    by (simp add: NonDecimalIntegerLiteral_def)
  have "StrUnsignedDecimalLiteral [a, b] = round_range (real (10 * digit_val a + digit_val b))"
    using assms digit_not_sign [of a]
    by (simp add: StrUnsignedDecimalLiteral_def ExponentPart_def digits_val_def pow10_def)
  then have u: "StrUnsignedDecimalLiteral [a, b] = Fin (real (10 * digit_val a + digit_val b))"
    by (simp only: r)
  have d: "StrDecimalLiteral [a, b] = StrUnsignedDecimalLiteral [a, b]"
    using digit_not_sign [OF assms(1)] by (simp add: StrDecimalLiteral_def)
  show ?thesis
    by (simp add: Number_def t n d u)
qed

lemma parse_launch_year_value:
  "Number (substr line1 9 2) = Fin y \<Longrightarrow>
   parse_launch_year line1 = Fin (if 50 < y then y + 1900 else y + 2000)"
  by (simp add: parse_launch_year_def)

text \<open>The epoch year as the code resolves it: the 1900s from \<open>58\<close> on.\<close>

lemma parse_epoch_year_value:
  "Number (substr line1 18 2) = Fin y \<Longrightarrow>
   parse_epoch_year line1 = Fin (if 57 < y then y + 1900 else y + 2000)"
  by (simp add: parse_epoch_year_def)

lemma parse_epoch_year_digits:
  assumes "substr line1 18 2 = [a, b]" "is_digit a" "is_digit b"
  shows "parse_epoch_year line1 =
           Fin (real (if 57 < 10 * digit_val a + digit_val b
                      then 1900 + (10 * digit_val a + digit_val b)
                      else 2000 + (10 * digit_val a + digit_val b)))"
  using parse_epoch_year_value [of line1 "real (10 * digit_val a + digit_val b)"]
    Number_two_digits [OF assms(2,3)] assms(1)
  by (simp add: add.commute)

text \<open>
  The epoch for a year of the twentieth or twenty-first century: midnight UTC at the
  start of 1 January of the resolved year, advanced by the day of the year less one,
  in whole milliseconds. This is the exact arithmetic of the model: in doubles the
  product of line 56 can fall short of a whole millisecond by rounding, and the time
  value kept is then one millisecond less.
\<close>

lemma DayFromYear_bound:
  assumes "1900 \<le> yr" "yr \<le> 2099"
  shows "\<bar>DayFromYear yr\<bar> \<le> 50000"
proof -
  define p where "p = (yr - 1969) div 4"
  define q where "q = (yr - 1901) div 100"
  define r where "r = (yr - 1601) div 400"
  have a: "(- 69) div 4 \<le> p" "p \<le> 130 div 4"
    using assms by (simp_all add: p_def zdiv_mono1)
  have b: "(- 1) div 100 \<le> q" "q \<le> 198 div 100"
    using assms by (simp_all add: q_def zdiv_mono1)
  have c: "299 div 400 \<le> r" "r \<le> 498 div 400"
    using assms by (simp_all add: r_def zdiv_mono1)
  have "DayFromYear yr = 365 * (yr - 1970) + p - q + r"
    by (simp add: DayFromYear_def p_def q_def r_def)
  then show ?thesis
    using a b c assms by simp
qed

lemma Date_UTC_year:
  assumes "1900 \<le> yr" "yr \<le> 2099"
  shows "Date_UTC (Fin (of_int yr)) = Fin (of_int (DayFromYear yr) * 86400000)"
proof -
  have b: "\<bar>real_of_int (DayFromYear yr)\<bar> \<le> 50000"
    using DayFromYear_bound [OF assms] by linarith
  have m: "MakeFullYear (Fin (of_int yr)) = Fin (of_int yr)"
    using assms by (simp add: MakeFullYear_def truncate_real_def Let_def)
  have "real_of_int (DayFromYear yr) * 86400000 = of_int (DayFromYear yr * 86400000)"
    by simp
  then have t: "truncate_real (real_of_int (DayFromYear yr) * 86400000)
      = real_of_int (DayFromYear yr) * 86400000"
    unfolding truncate_real_def by (simp only: floor_of_int ceiling_of_int if_cancel)
  have c: "\<bar>real_of_int (DayFromYear yr) * 86400000\<bar> \<le> 8640000000000000"
    using b by (simp add: abs_mult)
  show ?thesis
    unfolding Date_UTC_def m using c t by (simp add: TimeClip_def)
qed

lemma parse_epoch_value:
  assumes "parse_epoch_year line1 = Fin (of_int yr)" "1900 \<le> yr" "yr \<le> 2099"
    and "Number (substr line1 20 12) = Fin doy" "0 \<le> doy" "doy \<le> 1000"
  shows "parse_epoch line1 =
           Fin (truncate_real (of_int (DayFromYear yr) * 86400000 + (doy - 1) * 86400000))"
proof -
  have b: "\<bar>real_of_int (DayFromYear yr)\<bar> \<le> 50000"
    using DayFromYear_bound [OF assms(2,3)] by linarith
  have u: "Date_UTC (Fin (of_int yr)) = Fin (of_int (DayFromYear yr) * 86400000)"
    by (rule Date_UTC_year [OF assms(2,3)])
  have "real_of_int (DayFromYear yr) * 86400000 = of_int (DayFromYear yr * 86400000)"
    by simp
  then have t: "truncate_real (real_of_int (DayFromYear yr) * 86400000)
      = real_of_int (DayFromYear yr) * 86400000"
    unfolding truncate_real_def by (simp only: floor_of_int ceiling_of_int if_cancel)
  have c0: "\<bar>real_of_int (DayFromYear yr) * 86400000\<bar> \<le> 8640000000000000"
    using b by (simp add: abs_mult)
  have n: "new_Date (Date_UTC (Fin (of_int yr))) = Fin (of_int (DayFromYear yr) * 86400000)"
    unfolding u new_Date_def using c0 t by (simp add: TimeClip_def)
  have c: "\<bar>real_of_int (DayFromYear yr) * 86400000 + (doy - 1) * 86400000\<bar>
      \<le> 8640000000000000"
    using b assms(5,6) by (simp add: abs_le_iff)
  have s: "jadd (Fin (of_int (DayFromYear yr) * 86400000))
             (jmul (jmul (jsub (Fin doy) (Fin 1)) (Fin 86400)) (Fin 1000))
           = Fin (of_int (DayFromYear yr) * 86400000 + (doy - 1) * 86400000)"
    by (simp add: jsub_def)
  show ?thesis
    unfolding parse_epoch_def assms(1,4) Let_def n s setTime_def
    using c by (simp add: TimeClip_def)
qed

subsection \<open>Exponent fields\<close>

text \<open>
  C1. The claim: both exponent fields of line 1, the second derivative of the mean motion
  and the drag term, are stored as (mantissa sign) times \<open>0.digits\<close> times ten to the
  signed exponent, for both exponent signs. The constructor does otherwise on three
  well-formed lines: in the second derivative the implied \<open>0.\<close> is not inserted, so
  \<open>-30915-6\<close> is stored as \<open>-30915E-6\<close>, one hundred thousand times the value of the
  field; the mantissa sign of the drag term is never read, so \<open>-11606-4\<close> is stored
  positive; a positive exponent sign is not turned into an exponent marker, so
  \<open>00000+0\<close> is stored as \<open>NaN\<close>.
\<close>

theorem exponent_fields_misread:
  "(\<exists>t. TLE_constructor (Arr [Str sat16925_line1, Str line2]) u v = Inr t
        \<and> mean_motion_dot_dot t = Fin (- (30915 / 10 ^ 6)))
   \<and> implied_decimal_value (substr sat16925_line1 44 8) = Some (- (30915 / 10 ^ 11))
   \<and> (\<exists>t. TLE_constructor (Arr [Str iss_line1, Str line2]) u v = Inr t
        \<and> bstar t = Fin (11606 / 10 ^ 9))
   \<and> implied_decimal_value (substr iss_line1 53 8) = Some (- (11606 / 10 ^ 9))
   \<and> (\<exists>t. TLE_constructor (Arr [Str sat20413_line1, Str line2]) u v = Inr t
        \<and> bstar t = NaN)
   \<and> implied_decimal_value (substr sat20413_line1 53 8) = Some 0"
proof -
  have a: "parse_mean_motion_dot_dot sat16925_line1 = Fin (- (30915 / 10 ^ 6))"
    by (simp add: parse_mean_motion_dot_dot_def sat16925_line1_def substr_def num_defs)
  have a': "implied_decimal_value (substr sat16925_line1 44 8) = Some (- (30915 / 10 ^ 11))"
    by (simp add: implied_decimal_value_def sat16925_line1_def substr_def num_defs)
  have b: "parse_bstar iss_line1 = Fin (11606 / 10 ^ 9)"
    by (simp add: parse_bstar_def iss_line1_def substr_def num_defs)
  have b': "implied_decimal_value (substr iss_line1 53 8) = Some (- (11606 / 10 ^ 9))"
    by (simp add: implied_decimal_value_def iss_line1_def substr_def num_defs)
  have c: "parse_bstar sat20413_line1 = NaN"
    by (simp add: parse_bstar_def sat20413_line1_def substr_def num_defs)
  have c': "implied_decimal_value (substr sat20413_line1 53 8) = Some 0"
    by (simp add: implied_decimal_value_def sat20413_line1_def substr_def num_defs)
  show ?thesis
    unfolding TLE_constructor_two using a a' b b' c c' by simp
qed

subsection \<open>The epoch\<close>

text \<open>
  C2. The claim: a two-digit epoch year \<open>y\<close> is resolved to \<open>1900 + y\<close> when \<open>y \<ge> 57\<close> and
  to \<open>2000 + y\<close> otherwise, and the epoch is 1 January, 00:00 UTC, of that year advanced
  by the day of the year. The constructor tests \<open>epoch_year > 57\<close>: the year field \<open>57\<close>
  is resolved to 2057, and day 338.5 of it is the instant 2057-12-04T12:00Z, one hundred
  years after the instant the claim gives. Every other two-digit year is resolved as
  claimed, and day 1.0 of a year is the start of its 1 January.
\<close>

theorem epoch_year_57_resolved_to_2057:
  "parse_epoch_year epoch57_line1 = Fin 2057
   \<and> (\<exists>t. TLE_constructor (Arr [Str epoch57_line1, Str line2]) u v = Inr t
        \<and> epoch t = Fin 2774692800000)
   \<and> Date_UTC (Fin 2057) = Fin 2745532800000
   \<and> Date_UTC (Fin 1957) = Fin (- 410227200000)"
proof -
  have y: "parse_epoch_year epoch57_line1 = Fin 2057"
    by (simp add: parse_epoch_year_def epoch57_line1_def substr_def num_defs)
  have d: "Number (substr epoch57_line1 20 12) = Fin (677 / 2)"
    by (simp add: epoch57_line1_def substr_def num_defs)
  have e: "parse_epoch epoch57_line1 = Fin 2774692800000"
    by (simp add: parse_epoch_def y d date_defs)
  have f: "Date_UTC (Fin 2057) = Fin 2745532800000"
    by (simp add: date_defs)
  have g: "Date_UTC (Fin 1957) = Fin (- 410227200000)"
    by (simp add: date_defs)
  show ?thesis
    unfolding TLE_constructor_two using y e f g by simp
qed

subsection \<open>Malformed lines\<close>


text \<open>A number that is not one stays so through the arithmetic of the constructor.\<close>

lemma jadd_NaN_right: "jadd x NaN = NaN"
  by (cases x) simp_all

lemma parse_launch_year_NaN:
  "Number (substr line1 9 2) = NaN \<Longrightarrow> parse_launch_year line1 = NaN"
  by (simp add: parse_launch_year_def)

lemma parse_epoch_NaN:
  assumes "Number (substr line1 18 2) = NaN \<or> Number (substr line1 20 12) = NaN"
  shows "parse_epoch line1 = NaN"
  using assms
proof
  assume "Number (substr line1 18 2) = NaN"
  then have "parse_epoch_year line1 = NaN"
    by (simp add: parse_epoch_year_def)
  then show ?thesis
    by (simp add: parse_epoch_def date_defs)
next
  assume "Number (substr line1 20 12) = NaN"
  then show ?thesis
    by (simp add: parse_epoch_def setTime_def TimeClip_def jsub_def jadd_NaN_right)
qed

lemma parse_mean_motion_dot_dot_NaN:
  "Number (replace_first (substr line1 45 7) CHR ''-'' ''E-'') = NaN \<Longrightarrow>
   parse_mean_motion_dot_dot line1 = NaN"
  by (simp add: parse_mean_motion_dot_dot_def)



subsection \<open>Input formats\<close>

text \<open>
  C7. The claim: two lines or three lines with a name line are accepted, a padding marker
  at the start of the name line is stripped from the stored name, and the same three
  lines given as one array or as three arguments yield the same element set. The array
  of three lines is read as claimed. Given as three arguments, the lines are read as an
  array of the first two, because the constructor tests the unbound name \<open>line3\<close>
  instead of its parameter \<open>tline3\<close>: the name line is parsed as line 1 and line 1 as
  line 2, and the stored name is \<open>unknown\<close>.
\<close>

theorem three_arguments_lose_third_line:
  "TLE_constructor (Arr [Str iss_name, Str iss_line1, Str iss_line2]) Undefined Undefined
     = Inr (parse_lines [Str iss_name, Str iss_line1, Str iss_line2]
              ''ISS (ZARYA)'' iss_line1 iss_line2)
   \<and> TLE_constructor (Str iss_name) (Str iss_line1) (Str iss_line2)
     = Inr (parse_lines [Str iss_name, Str iss_line1] ''unknown'' iss_name iss_line1)
   \<and> satid (parse_lines [Str iss_name, Str iss_line1, Str iss_line2]
              ''ISS (ZARYA)'' iss_line1 iss_line2) = Fin 25544
   \<and> satid (parse_lines [Str iss_name, Str iss_line1] ''unknown'' iss_name iss_line1) = NaN
   \<and> TLE_constructor (Str iss_name) (Str iss_line1) (Str iss_line2)
     \<noteq> TLE_constructor (Arr [Str iss_name, Str iss_line1, Str iss_line2]) Undefined Undefined"
proof -
  have nm: "(if substring iss_name 0 1 = ''0'' then substring_from iss_name 2 else iss_name)
              = ''ISS (ZARYA)''"
    by (simp add: iss_name_def substring_def substring_from_def)
  have a: "TLE_constructor (Arr [Str iss_name, Str iss_line1, Str iss_line2]) Undefined Undefined
     = Inr (parse_lines [Str iss_name, Str iss_line1, Str iss_line2]
              ''ISS (ZARYA)'' iss_line1 iss_line2)"
    by (simp only: TLE_constructor_three nm)
  have b: "TLE_constructor (Str iss_name) (Str iss_line1) (Str iss_line2)
     = Inr (parse_lines [Str iss_name, Str iss_line1] ''unknown'' iss_name iss_line1)"
    by (rule TLE_constructor_args)
  have c: "Number (substr iss_line1 2 5) = Fin 25544"
    by (simp add: iss_line1_def substr_def num_defs)
  have d: "Number (substr iss_name 2 5) = NaN"
    by (simp add: iss_name_def substr_def num_defs)
  have "name (parse_lines [Str iss_name, Str iss_line1] ''unknown'' iss_name iss_line1)
          \<noteq> name (parse_lines [Str iss_name, Str iss_line1, Str iss_line2]
              ''ISS (ZARYA)'' iss_line1 iss_line2)"
    by simp
  then have e: "parse_lines [Str iss_name, Str iss_line1] ''unknown'' iss_name iss_line1
          \<noteq> parse_lines [Str iss_name, Str iss_line1, Str iss_line2]
              ''ISS (ZARYA)'' iss_line1 iss_line2"
    by metis
  show ?thesis
    using a b c d e by simp
qed

subsection \<open>The launch year\<close>

text \<open>
  C9. The two-digit launch year of line 1 (columns 9 and 10, counted from 0) is resolved
  with the pivot 50, not the pivot of the epoch year: a value above 50 lies in the
  1900s, a value of 50 or below in the 2000s. This holds for each way of handing the
  lines to the constructor.
\<close>

theorem launch_year_pivot:
  assumes "substr line1 9 2 = [a, b]" and "is_digit a" and "is_digit b"
    and "y = 10 * digit_val a + digit_val b"
  shows "(\<exists>t. TLE_constructor (Arr [Str line1, Str line2]) u v = Inr t
             \<and> launch_year t = Fin (real (if 50 < y then 1900 + y else 2000 + y)))
       \<and> (\<exists>t. TLE_constructor (Arr [Str line0, Str line1, Str line2]) u v = Inr t
             \<and> launch_year t = Fin (real (if 50 < y then 1900 + y else 2000 + y)))
       \<and> (\<exists>t. TLE_constructor (Str line1) (Str line2) v = Inr t
             \<and> launch_year t = Fin (real (if 50 < y then 1900 + y else 2000 + y)))"
proof -
  have "Number (substr line1 9 2) = Fin (real y)"
    using assms by (simp add: Number_two_digits)
  then have "parse_launch_year line1 = Fin (real (if 50 < y then 1900 + y else 2000 + y))"
    by (simp add: parse_launch_year_value add.commute)
  then show ?thesis
    by (simp add: TLE_constructor_two TLE_constructor_three TLE_constructor_args)
qed

theorem launch_year_pivot_witness:
  "substr iss_line1 9 2 = ''98'' \<and> is_digit CHR ''9'' \<and> is_digit CHR ''8''
   \<and> (\<exists>t. TLE_constructor (Arr [Str iss_line1, Str iss_line2]) Undefined Undefined = Inr t
         \<and> launch_year t = Fin 1998)
   \<and> substr epoch57_line1 9 2 = ''57'' \<and> substr epoch57_line1 18 2 = ''57''
   \<and> (\<exists>t. TLE_constructor (Arr [Str epoch57_line1, Str iss_line2]) Undefined Undefined = Inr t
         \<and> launch_year t = Fin 1957)
   \<and> parse_epoch_year epoch57_line1 = Fin 2057"
proof -
  have h: "substr iss_line1 9 2 = ''98''" "is_digit CHR ''9''" "is_digit CHR ''8''"
    by (simp_all add: iss_line1_def substr_def is_digit_def)
  have k: "substr epoch57_line1 9 2 = ''57''" "substr epoch57_line1 18 2 = ''57''"
      "is_digit CHR ''5''" "is_digit CHR ''7''"
    by (simp_all add: epoch57_line1_def substr_def is_digit_def)
  have v: "10 * digit_val CHR ''9'' + digit_val CHR ''8'' = 98"
      "10 * digit_val CHR ''5'' + digit_val CHR ''7'' = 57"
    by (simp_all add: digit_val_def)
  from launch_year_pivot [OF h(1) h(2) h(3) refl, of iss_line2 Undefined Undefined]
    launch_year_pivot [OF k(1) k(3) k(4) refl, of iss_line2 Undefined Undefined]
  moreover have "parse_epoch_year epoch57_line1 = Fin 2057"
    by (simp add: parse_epoch_year_def epoch57_line1_def substr_def num_defs)
  ultimately show ?thesis
    using h k by (simp add: v)
qed

section \<open>Properties of the driver\<close>

lemma init_satrec_creates: "satrec (snd (init_satrec lib this w)) \<noteq> None"
  by (simp add: init_satrec_def Let_def split: prod.splits option.splits)

lemma TLE_sgp4_cached:
  "satrec this = Some rec \<Longrightarrow>
   TLE_sgp4 lib this d w =
     (fst (sgp4 lib rec (tsince_of lib rec d)),
      this\<lparr>satrec := Some (snd (sgp4 lib rec (tsince_of lib rec d)))\<rparr>)"
  by (simp add: TLE_sgp4_def Let_def split: prod.splits)

lemma TLE_sgp4_creates: "satrec (snd (TLE_sgp4 lib this d w)) \<noteq> None"
proof (cases "satrec this")
  case None
  obtain err this1 where i: "init_satrec lib this (if w = Undefined then Str ''wgs84'' else w)
      = (err, this1)"
    by (cases "init_satrec lib this (if w = Undefined then Str ''wgs84'' else w)")
  have s: "satrec this1 \<noteq> None"
    using init_satrec_creates [of lib this "if w = Undefined then Str ''wgs84'' else w"] i
    by simp
  show ?thesis
    using None i s
    by (auto simp: TLE_sgp4_def Let_def split: prod.splits option.splits)
next
  case (Some rec)
  then show ?thesis by (simp add: TLE_sgp4_cached)
qed

lemma TLE_sgp4_read_only:
  "step_read_only lib \<Longrightarrow> satrec this = Some rec \<Longrightarrow>
   snd (TLE_sgp4 lib this d w) = this"
  by (simp add: TLE_sgp4_cached step_read_only_def)

lemma propagate_all_read_only:
  "step_read_only lib \<Longrightarrow> satrec this = Some rec \<Longrightarrow> propagate_all lib this calls = this"
  by (induction calls arbitrary: this) (auto simp: TLE_sgp4_read_only)

lemma propagate_all_creates:
  "calls \<noteq> [] \<or> satrec this \<noteq> None \<Longrightarrow> satrec (propagate_all lib this calls) \<noteq> None"
proof (induction calls arbitrary: this)
  case Nil
  then show ?case by simp
next
  case (Cons c calls)
  obtain d w where c: "c = (d, w)" by (cases c)
  show ?case
    using Cons.IH [of "snd (TLE_sgp4 lib this d w)"] TLE_sgp4_creates [of lib this d w]
    by (simp add: c)
qed

subsection \<open>Degenerate conditions\<close>

lemma kepler_solve_None_iff:
  "kepler_solve nxt tol n E = None \<longleftrightarrow>
     (\<forall>k<n. tol \<le> \<bar>(nxt ^^ Suc k) E - (nxt ^^ k) E\<bar>)"
proof (induction n arbitrary: E)
  case 0
  then show ?case by simp
next
  case (Suc n)
  have "(\<forall>k<Suc n. tol \<le> \<bar>(nxt ^^ Suc k) E - (nxt ^^ k) E\<bar>) \<longleftrightarrow>
        tol \<le> \<bar>nxt E - E\<bar> \<and> (\<forall>k<n. tol \<le> \<bar>(nxt ^^ Suc k) (nxt E) - (nxt ^^ k) (nxt E)\<bar>)"
    (is "?L \<longleftrightarrow> ?R")
  proof
    assume l: ?L
    have "tol \<le> \<bar>nxt E - E\<bar>" using l [rule_format, of 0] by simp
    moreover have "\<forall>k<n. tol \<le> \<bar>(nxt ^^ Suc k) (nxt E) - (nxt ^^ k) (nxt E)\<bar>"
    proof (intro allI impI)
      fix k assume "k < n"
      then show "tol \<le> \<bar>(nxt ^^ Suc k) (nxt E) - (nxt ^^ k) (nxt E)\<bar>"
        using l [rule_format, of "Suc k"] by (simp add: funpow_swap1)
    qed
    ultimately show ?R by simp
  next
    assume r: ?R
    show ?L
    proof (intro allI impI)
      fix k assume k: "k < Suc n"
      show "tol \<le> \<bar>(nxt ^^ Suc k) E - (nxt ^^ k) E\<bar>"
      proof (cases k)
        case 0
        then show ?thesis using r by simp
      next
        case (Suc j)
        then show ?thesis using r k by (simp add: funpow_swap1)
      qed
    qed
  qed
  then show ?case
    using Suc.IH [of "nxt E"] by (simp add: Let_def not_less)
qed

lemma tsince_of_sgp4_update [simp]:
  "tsince_of (lib\<lparr>sgp4 := f\<rparr>) rec d = tsince_of lib rec d"
  by (simp add: tsince_of_def)

text \<open>
  What a call returns, by the record it hands to the step; the initialisation does not
  call the step, so the record does not depend on it.
\<close>

lemma TLE_sgp4_used:
  "record_used lib this w = Some rec \<Longrightarrow>
   fst (TLE_sgp4 lib this d w) = fst (sgp4 lib rec (tsince_of lib rec d))"
  by (cases "w = Undefined")
    (auto simp: TLE_sgp4_def record_used_def Let_def split: prod.splits option.splits)

lemma TLE_sgp4_not_used:
  "record_used lib this w = None \<Longrightarrow> \<exists>e. fst (TLE_sgp4 lib this d w) = Inl e"
  by (cases "w = Undefined")
    (auto simp: TLE_sgp4_def record_used_def Let_def split: prod.splits option.splits)

lemma satrec_fields_sgp4_update [simp]:
  "satrec_fields (lib\<lparr>sgp4 := f\<rparr>) this rec = satrec_fields lib this rec"
  by (simp add: satrec_fields_def)

lemma init_satrec_sgp4_update [simp]:
  "init_satrec (lib\<lparr>sgp4 := f\<rparr>) this w = init_satrec lib this w"
  by (simp add: init_satrec_def Let_def split: prod.splits option.splits)

lemma record_used_sgp4_update [simp]:
  "record_used (lib\<lparr>sgp4 := f\<rparr>) this w = record_used lib this w"
  by (simp add: record_used_def split: option.splits)

text \<open>
  C4. Whenever the propagation step detects a degenerate condition, the solver of
  Kepler's equation not converging within its iteration bound, the corrected
  eccentricity outside \<open>[0, 1)\<close>, or the radius below the equatorial radius of the
  gravity model, the call reports a failure of its own type, \<open>ConvergenceError\<close> for
  the first and \<open>OrbitDecayedError\<close> for the other two, and returns no state vector.
  The step is the one modelled from the specification; the driver hands its result to
  the caller as it is. The conditions are those of the record the call hands to the
  step, on the first call of an element set as on a later one; a first call whose
  initialisation throws returns no state vector either.
\<close>

theorem degenerate_conditions_reported:
  assumes "out = fst (TLE_sgp4 (lib\<lparr>sgp4 := spec_sgp4 M\<rparr>) this d w)"
    and "used = record_used (lib\<lparr>sgp4 := spec_sgp4 M\<rparr>) this w"
    and "el = secular M rec (tsince_of lib rec d)"
    and "sol = kepler_solve (kepler_next M el) (tolerance M) (max_iterations M) (kepler_start M el)"
  shows "(used = None \<longrightarrow> (\<exists>e. out = Inl e))
       \<and> (used = Some rec \<longrightarrow>
            ((\<forall>k<max_iterations M.
                 tolerance M \<le> \<bar>(kepler_next M el ^^ Suc k) (kepler_start M el)
                                 - (kepler_next M el ^^ k) (kepler_start M el)\<bar>)
               \<longrightarrow> out = Inl ConvergenceError)
          \<and> (\<forall>E. sol = Some E
                  \<and> (corrected_eccentricity M el E < 0 \<or> 1 \<le> corrected_eccentricity M el E)
                \<longrightarrow> out = Inl OrbitDecayedError)
          \<and> (\<forall>E. sol = Some E
                  \<and> magnitude (fst (to_cartesian M el E)) < equatorial_radius M rec
                \<longrightarrow> out = Inl OrbitDecayedError)
          \<and> (\<forall>sv. out = Inr sv \<longrightarrow>
                (\<exists>E. no_degenerate_condition M rec (tsince_of lib rec d) E)))
       \<and> ConvergenceError \<noteq> OrbitDecayedError"
proof -
  have thrown: "\<exists>e. out = Inl e" if "used = None"
    using that assms(1,2) TLE_sgp4_not_used by metis
  have step: "out = spec_step M rec (tsince_of lib rec d)" if "used = Some rec"
  proof -
    have "record_used (lib\<lparr>sgp4 := spec_sgp4 M\<rparr>) this w = Some rec"
      using that assms(2) by simp
    from TLE_sgp4_used [OF this, of d] show ?thesis
      unfolding assms(1) by (simp add: spec_sgp4_def)
  qed
  have none: "sol = None \<longleftrightarrow>
      (\<forall>k<max_iterations M.
             tolerance M \<le> \<bar>(kepler_next M el ^^ Suc k) (kepler_start M el)
                             - (kepler_next M el ^^ k) (kepler_start M el)\<bar>)"
    unfolding assms(4) by (rule kepler_solve_None_iff)
  have errors: "spec_step M rec (tsince_of lib rec d) = Inl ConvergenceError" if "sol = None"
    using that assms(3,4) by (simp add: spec_step_def Let_def)
  have decayed: "spec_step M rec (tsince_of lib rec d) = Inl OrbitDecayedError"
    if "sol = Some E"
      "corrected_eccentricity M el E < 0 \<or> 1 \<le> corrected_eccentricity M el E
       \<or> magnitude (fst (to_cartesian M el E)) < equatorial_radius M rec" for E
    using that assms(3,4)
    by (auto simp: spec_step_def Let_def split: prod.splits)
  have vector: "\<exists>E. no_degenerate_condition M rec (tsince_of lib rec d) E"
    if "spec_step M rec (tsince_of lib rec d) = Inr sv" for sv
    using that
    by (auto simp: spec_step_def no_degenerate_condition_def Let_def
        split: option.splits prod.splits if_splits)
  show ?thesis
    using thrown step none errors decayed vector by auto
qed

subsection \<open>The gravity model\<close>

lemma satrec_fields_getgravconst_update [simp]:
  "satrec_fields (lib\<lparr>getgravconst := f\<rparr>) this rec = satrec_fields lib this rec"
  by (simp add: satrec_fields_def)

lemma tsince_of_getgravconst_update [simp]:
  "tsince_of (lib\<lparr>getgravconst := f\<rparr>) rec d = tsince_of lib rec d"
  by (simp add: tsince_of_def)

text \<open>
  C6, as claimed: a call of the propagation entry point without a model name selects
  WGS-84, and one with a name that is not recognised fails with an unknown-model error.
  Neither holds once the element set has its record: after a first call with \<open>wgs72\<close>,
  a call with the unknown name \<open>wgs99\<close> fails with no error and returns a state
  vector, and a call without a name leaves the equatorial radius of WGS-72 in the
  record.
\<close>

theorem later_call_ignores_model_name:
  "fst (TLE_sgp4 table_lib (snd (TLE_sgp4 table_lib iss_tle (Fin 0) (Str ''wgs72'')))
          (Fin 0) (Str ''wgs99'')) \<noteq> Inl UnknownModelError
   \<and> \<not> isl (fst (TLE_sgp4 table_lib (snd (TLE_sgp4 table_lib iss_tle (Fin 0) (Str ''wgs72'')))
          (Fin 0) (Str ''wgs99'')))
   \<and> getnum (the (satrec (snd (TLE_sgp4 table_lib
          (snd (TLE_sgp4 table_lib iss_tle (Fin 0) (Str ''wgs72''))) (Fin 0) Undefined))))
        ''radiusearthkm'' = Fin 6378.135
   \<and> getnum (example_bundle WGS84) ''radiusearthkm'' = Fin 6378.137"
proof -
  let ?rec = "satrec_fields example_lib iss_tle (example_bundle WGS72)"
  have n: "satrec iss_tle = None"
    by (simp add: iss_tle_def)
  have first: "snd (TLE_sgp4 table_lib iss_tle (Fin 0) (Str ''wgs72''))
      = iss_tle\<lparr>satrec := Some ?rec\<rparr>"
    using n
    by (simp add: TLE_sgp4_def init_satrec_def table_lib_def example_lib_def
        spec_getgravconst_def lookup_def satrec_fields_def)
  have s: "satrec (iss_tle\<lparr>satrec := Some ?rec\<rparr>) = Some ?rec"
    by simp
  have step: "sgp4 table_lib r t = (Inr (Results [t] [getnum r ''jdsatepoch'']), r)" for r t
    by (simp add: table_lib_def example_lib_def)
  have r: "getnum ?rec ''radiusearthkm'' = Fin 6378.135"
    by (simp add: satrec_fields_def example_bundle_def getnum_def Let_def)
  have b: "getnum (example_bundle WGS84) ''radiusearthkm'' = Fin 6378.137"
    by (simp add: example_bundle_def getnum_def)
  show ?thesis
    unfolding first TLE_sgp4_cached [OF s] step
    using r b by simp
qed

text \<open>
  C6, amended: exactly two gravity models are recognised, \<open>wgs72\<close> and \<open>wgs84\<close>, and the
  name is looked up only by the first propagation request on an element set, the one
  that creates its record. Without a name that request selects WGS-84: it runs as the
  request with \<open>wgs84\<close> does. With a recognised name it fills the blank record with the
  constants of that model, writes its own fields into it and hands it, with the name, to
  the initialiser and then to the step. With any other name it fails with an
  unknown-model error and leaves the blank record behind. A later request on the element
  set does not look at the name: it hands the cached record to the step. The table is
  the one modelled from the specification; the rest is the code of the driver.
\<close>

theorem gravity_model_names:
  "((\<exists>g. lookup nm = Inr g) \<longleftrightarrow> nm = Str ''wgs72'' \<or> nm = Str ''wgs84'')
   \<and> lookup (Str ''wgs72'') = Inr WGS72 \<and> lookup (Str ''wgs84'') = Inr WGS84
   \<and> WGS72 \<noteq> WGS84
   \<and> (nm \<noteq> Str ''wgs72'' \<and> nm \<noteq> Str ''wgs84'' \<longrightarrow> lookup nm = Inl UnknownModelError)
   \<and> TLE_sgp4 lib this d Undefined = TLE_sgp4 lib this d (Str ''wgs84'')
   \<and> (satrec this = None \<and> lookup nm = Inr g \<longrightarrow>
        TLE_sgp4 (lib\<lparr>getgravconst := spec_getgravconst table\<rparr>) this d nm =
          (let rec1 = satrec_fields lib this (table g);
               (err, rec2) = sgp4init lib (sgp4init_args this nm rec1) rec1
           in case err of
                Some e \<Rightarrow> (Inl e, this\<lparr>satrec := Some rec2\<rparr>)
              | None \<Rightarrow>
                  (fst (sgp4 lib rec2 (tsince_of lib rec2 d)),
                   this\<lparr>satrec := Some (snd (sgp4 lib rec2 (tsince_of lib rec2 d)))\<rparr>)))
   \<and> (satrec this = None \<and> nm \<noteq> Undefined \<and> nm \<noteq> Str ''wgs72'' \<and> nm \<noteq> Str ''wgs84'' \<longrightarrow>
        TLE_sgp4 (lib\<lparr>getgravconst := spec_getgravconst table\<rparr>) this d nm
          = (Inl UnknownModelError, this\<lparr>satrec := Some Map.empty\<rparr>))
   \<and> (satrec this = Some rec \<longrightarrow>
        TLE_sgp4 (lib\<lparr>getgravconst := spec_getgravconst table\<rparr>) this d nm =
          (fst (sgp4 lib rec (tsince_of lib rec d)),
           this\<lparr>satrec := Some (snd (sgp4 lib rec (tsince_of lib rec d)))\<rparr>))"
proof -
  have a: "TLE_sgp4 lib this d Undefined = TLE_sgp4 lib this d (Str ''wgs84'')"
    by (simp add: TLE_sgp4_def)
  have known: "TLE_sgp4 (lib\<lparr>getgravconst := spec_getgravconst table\<rparr>) this d nm =
          (let rec1 = satrec_fields lib this (table g);
               (err, rec2) = sgp4init lib (sgp4init_args this nm rec1) rec1
           in case err of
                Some e \<Rightarrow> (Inl e, this\<lparr>satrec := Some rec2\<rparr>)
              | None \<Rightarrow>
                  (fst (sgp4 lib rec2 (tsince_of lib rec2 d)),
                   this\<lparr>satrec := Some (snd (sgp4 lib rec2 (tsince_of lib rec2 d)))\<rparr>))"
    if "satrec this = None" "lookup nm = Inr g"
  proof -
    have u: "nm \<noteq> Undefined"
      using that(2) by (auto simp: lookup_def split: if_splits)
    show ?thesis
      using that u
      by (auto simp: TLE_sgp4_def init_satrec_def spec_getgravconst_def Let_def
          split: prod.splits option.splits)
  qed
  have unknown: "TLE_sgp4 (lib\<lparr>getgravconst := spec_getgravconst table\<rparr>) this d nm
          = (Inl UnknownModelError, this\<lparr>satrec := Some Map.empty\<rparr>)"
    if "satrec this = None" "nm \<noteq> Undefined" "nm \<noteq> Str ''wgs72''" "nm \<noteq> Str ''wgs84''"
    using that
    by (simp add: TLE_sgp4_def init_satrec_def spec_getgravconst_def lookup_def)
  have later: "TLE_sgp4 (lib\<lparr>getgravconst := spec_getgravconst table\<rparr>) this d nm =
          (fst (sgp4 lib rec (tsince_of lib rec d)),
           this\<lparr>satrec := Some (snd (sgp4 lib rec (tsince_of lib rec d)))\<rparr>)"
    if "satrec this = Some rec"
    using TLE_sgp4_cached [OF that, of "lib\<lparr>getgravconst := spec_getgravconst table\<rparr>" d nm]
    by simp
  have l: "((\<exists>g. lookup nm = Inr g) \<longleftrightarrow> nm = Str ''wgs72'' \<or> nm = Str ''wgs84'')
     \<and> lookup (Str ''wgs72'') = Inr WGS72 \<and> lookup (Str ''wgs84'') = Inr WGS84
     \<and> (nm \<noteq> Str ''wgs72'' \<and> nm \<noteq> Str ''wgs84'' \<longrightarrow> lookup nm = Inl UnknownModelError)"
    by (auto simp: lookup_def)
  show ?thesis
    using a known unknown later l by blast
qed

subsection \<open>The cached record\<close>


subsection \<open>The model name after the first call\<close>

text \<open>
  C10. Once an element set has served a propagation request, the model name of a later
  request has no effect: for any date, two requests that differ only in the model
  name, given or not, return the same result and leave the same element set. This holds
  for every behaviour of the functions of \<open>sgp4.js\<close>, and also when the first request
  failed.
\<close>

theorem model_name_ignored_after_first_call:
  assumes "calls \<noteq> []"
  shows "TLE_sgp4 lib (propagate_all lib this calls) d w1
           = TLE_sgp4 lib (propagate_all lib this calls) d w2"
proof -
  obtain rec where "satrec (propagate_all lib this calls) = Some rec"
    using propagate_all_creates [of calls this lib] assms by auto
  then show ?thesis
    by (simp add: TLE_sgp4_cached)
qed


section \<open>The theorems at concrete inputs\<close>

lemma step_read_only_example: "step_read_only example_lib"
  by (simp add: step_read_only_def example_lib_def)

lemma magnitude_x_axis: "magnitude [x, 0, 0] = \<bar>x\<bar>"
  by (simp add: magnitude_def)

lemma kepler_solve_example_converging:
  "kepler_solve (kepler_next (example_model 0 e x) ()) (tolerance (example_model 0 e x))
     (max_iterations (example_model 0 e x)) (kepler_start (example_model 0 e x) ()) = Some 0"
  by (simp add: example_model_def eval_nat_numeral)

lemma kepler_solve_example_diverging:
  "kepler_solve (kepler_next (example_model 1 e x) ()) (tolerance (example_model 1 e x))
     (max_iterations (example_model 1 e x)) (kepler_start (example_model 1 e x) ()) = None"
  by (simp add: example_model_def eval_nat_numeral)

lemma record_used_first_example:
  "record_used (example_lib\<lparr>sgp4 := f\<rparr>) iss_tle Undefined
     = Some (satrec_fields example_lib iss_tle [''tumin'' \<mapsto> FNum (Fin 1)])"
proof -
  have g: "getgravconst example_lib w Map.empty = (None, [''tumin'' \<mapsto> FNum (Fin 1)])" for w
    by (simp add: example_lib_def)
  have i: "sgp4init example_lib args rec = (None, rec)" for args rec
    by (simp add: example_lib_def)
  have n: "satrec iss_tle = None"
    by (simp add: iss_tle_def)
  show ?thesis
    unfolding record_used_sgp4_update
    by (simp add: record_used_def init_satrec_def g i n)
qed

lemma record_used_cached_example:
  "record_used (example_lib\<lparr>sgp4 := f\<rparr>) iss_tle_cached Undefined
     = Some [''jdsatepoch'' \<mapsto> FNum (Fin 0)]"
  by (simp add: record_used_def iss_tle_cached_def)

theorem degenerate_conditions_reported_witness:
  "satrec iss_tle = None
   \<and> record_used (example_lib\<lparr>sgp4 := spec_sgp4 (example_model 1 0 7000)\<rparr>) iss_tle Undefined
       = Some (satrec_fields example_lib iss_tle [''tumin'' \<mapsto> FNum (Fin 1)])
   \<and> kepler_solve (kepler_next (example_model 1 0 7000) ()) (tolerance (example_model 1 0 7000))
       (max_iterations (example_model 1 0 7000)) (kepler_start (example_model 1 0 7000) ()) = None
   \<and> fst (TLE_sgp4 (example_lib\<lparr>sgp4 := spec_sgp4 (example_model 1 0 7000)\<rparr>)
            iss_tle (Fin 0) Undefined) = Inl ConvergenceError
   \<and> corrected_eccentricity (example_model 0 (3 / 2) 7000) () 0 = 3 / 2
   \<and> fst (TLE_sgp4 (example_lib\<lparr>sgp4 := spec_sgp4 (example_model 0 (3 / 2) 7000)\<rparr>)
            iss_tle (Fin 0) Undefined) = Inl OrbitDecayedError
   \<and> satrec iss_tle_cached = Some [''jdsatepoch'' \<mapsto> FNum (Fin 0)]
   \<and> magnitude (fst (to_cartesian (example_model 0 (1 / 10) 100) () 0)) = 100
   \<and> equatorial_radius (example_model 0 (1 / 10) 100) [''jdsatepoch'' \<mapsto> FNum (Fin 0)] = 6378
   \<and> fst (TLE_sgp4 (example_lib\<lparr>sgp4 := spec_sgp4 (example_model 0 (1 / 10) 100)\<rparr>)
            iss_tle_cached (Fin 0) Undefined) = Inl OrbitDecayedError
   \<and> fst (TLE_sgp4 (example_lib\<lparr>sgp4 := spec_sgp4 (example_model 0 (1 / 10) 7000)\<rparr>)
            iss_tle_cached (Fin 0) Undefined)
       = Inr (Results [Fin 7000, Fin 0, Fin 0] [Fin 0, Fin 0, Fin 0])"
proof -
  let ?first = "satrec_fields example_lib iss_tle [''tumin'' \<mapsto> FNum (Fin 1)]"
  let ?rec = "[''jdsatepoch'' \<mapsto> FNum (Fin 0)]"
  have n: "satrec iss_tle = None"
    by (simp add: iss_tle_def)
  have h: "satrec iss_tle_cached = Some ?rec"
    by (simp add: iss_tle_cached_def)
  note t1 = degenerate_conditions_reported
    [OF refl refl refl refl, where this = iss_tle and rec = ?first
       and M = "example_model 1 0 7000" and lib = example_lib
       and d = "Fin 0" and w = Undefined]
  have c1: "fst (TLE_sgp4 (example_lib\<lparr>sgp4 := spec_sgp4 (example_model 1 0 7000)\<rparr>)
            iss_tle (Fin 0) Undefined) = Inl ConvergenceError"
    using t1 record_used_first_example kepler_solve_example_diverging [of 0 7000]
    by (simp add: kepler_solve_None_iff)
  note t2 = degenerate_conditions_reported
    [OF refl refl refl refl, where this = iss_tle and rec = ?first
       and M = "example_model 0 (3 / 2) 7000" and lib = example_lib
       and d = "Fin 0" and w = Undefined]
  have e2: "corrected_eccentricity (example_model 0 (3 / 2) 7000) () 0 = 3 / 2"
    by (simp add: example_model_def)
  have c2: "fst (TLE_sgp4 (example_lib\<lparr>sgp4 := spec_sgp4 (example_model 0 (3 / 2) 7000)\<rparr>)
            iss_tle (Fin 0) Undefined) = Inl OrbitDecayedError"
    using t2 record_used_first_example kepler_solve_example_converging [of "3 / 2" 7000] e2
    by simp
  note t3 = degenerate_conditions_reported
    [OF refl refl refl refl, where this = iss_tle_cached and rec = ?rec
       and M = "example_model 0 (1 / 10) 100" and lib = example_lib
       and d = "Fin 0" and w = Undefined]
  have m3: "magnitude (fst (to_cartesian (example_model 0 (1 / 10) 100) () 0)) = 100"
    by (simp add: example_model_def magnitude_x_axis)
  have r3: "equatorial_radius (example_model 0 (1 / 10) 100) ?rec = 6378"
    by (simp add: example_model_def)
  have c3: "fst (TLE_sgp4 (example_lib\<lparr>sgp4 := spec_sgp4 (example_model 0 (1 / 10) 100)\<rparr>)
            iss_tle_cached (Fin 0) Undefined) = Inl OrbitDecayedError"
    using t3 record_used_cached_example kepler_solve_example_converging [of "1 / 10" 100] m3 r3
    by simp
  have c4: "fst (TLE_sgp4 (example_lib\<lparr>sgp4 := spec_sgp4 (example_model 0 (1 / 10) 7000)\<rparr>)
            iss_tle_cached (Fin 0) Undefined)
       = Inr (Results [Fin 7000, Fin 0, Fin 0] [Fin 0, Fin 0, Fin 0])"
    using h kepler_solve_example_converging [of "1 / 10" 7000]
    by (simp add: TLE_sgp4_cached spec_sgp4_def spec_step_def magnitude_x_axis
        example_model_def)
  show ?thesis
    using n h record_used_first_example kepler_solve_example_diverging [of 0 7000]
      c1 e2 c2 m3 r3 c3 c4 by simp
qed

theorem gravity_model_names_witness:
  "satrec iss_tle = None
   \<and> lookup (Str ''wgs99'') = Inl UnknownModelError
   \<and> TLE_sgp4 table_lib iss_tle (Fin 0) (Str ''wgs99'')
       = (Inl UnknownModelError, iss_tle\<lparr>satrec := Some Map.empty\<rparr>)
   \<and> lookup (Str ''wgs84'') = Inr WGS84
   \<and> TLE_sgp4 table_lib iss_tle (Fin 0) Undefined
       = TLE_sgp4 table_lib iss_tle (Fin 0) (Str ''wgs84'')
   \<and> satrec (snd (TLE_sgp4 table_lib iss_tle (Fin 0) Undefined))
       = Some (satrec_fields example_lib iss_tle (example_bundle WGS84))
   \<and> getnum (satrec_fields example_lib iss_tle (example_bundle WGS84)) ''radiusearthkm''
       = Fin 6378.137
   \<and> \<not> isl (fst (TLE_sgp4 table_lib iss_tle (Fin 0) Undefined))
   \<and> satrec (snd (TLE_sgp4 table_lib iss_tle (Fin 0) (Str ''wgs72'')))
       = Some (satrec_fields example_lib iss_tle (example_bundle WGS72))
   \<and> getnum (satrec_fields example_lib iss_tle (example_bundle WGS72)) ''radiusearthkm''
       = Fin 6378.135"
proof -
  have n: "satrec iss_tle = None"
    by (simp add: iss_tle_def)
  have i: "sgp4init example_lib args rec = (None, rec)" for args rec
    by (simp add: example_lib_def)
  have step: "sgp4 example_lib r t = (Inr (Results [t] [getnum r ''jdsatepoch'']), r)" for r t
    by (simp add: example_lib_def)
  note t99 = gravity_model_names [where nm = "Str ''wgs99''" and lib = example_lib
      and table = example_bundle and this = iss_tle and d = "Fin 0"]
  note t84 = gravity_model_names [where nm = "Str ''wgs84''" and g = WGS84 and lib = example_lib
      and table = example_bundle and this = iss_tle and d = "Fin 0"]
  note t84' = gravity_model_names [where lib = table_lib and this = iss_tle and d = "Fin 0"]
  note t72 = gravity_model_names [where nm = "Str ''wgs72''" and g = WGS72 and lib = example_lib
      and table = example_bundle and this = iss_tle and d = "Fin 0"]
  have l99: "lookup (Str ''wgs99'') = Inl UnknownModelError"
    using t99 by simp
  have c99: "TLE_sgp4 table_lib iss_tle (Fin 0) (Str ''wgs99'')
       = (Inl UnknownModelError, iss_tle\<lparr>satrec := Some Map.empty\<rparr>)"
    unfolding table_lib_def using t99 n by simp
  have l84: "lookup (Str ''wgs84'') = Inr WGS84" and l72: "lookup (Str ''wgs72'') = Inr WGS72"
    using t84 by simp_all
  have d84: "TLE_sgp4 table_lib iss_tle (Fin 0) Undefined
       = TLE_sgp4 table_lib iss_tle (Fin 0) (Str ''wgs84'')"
    using t84' by blast
  have c84: "TLE_sgp4 table_lib iss_tle (Fin 0) (Str ''wgs84'')
      = (Inr (Results [tsince_of example_lib
                         (satrec_fields example_lib iss_tle (example_bundle WGS84)) (Fin 0)]
                      [getnum (satrec_fields example_lib iss_tle (example_bundle WGS84))
                         ''jdsatepoch'']),
         iss_tle\<lparr>satrec := Some (satrec_fields example_lib iss_tle (example_bundle WGS84))\<rparr>)"
    unfolding table_lib_def using t84 n l84 by (simp add: i step Let_def)
  have c72: "TLE_sgp4 table_lib iss_tle (Fin 0) (Str ''wgs72'')
      = (Inr (Results [tsince_of example_lib
                         (satrec_fields example_lib iss_tle (example_bundle WGS72)) (Fin 0)]
                      [getnum (satrec_fields example_lib iss_tle (example_bundle WGS72))
                         ''jdsatepoch'']),
         iss_tle\<lparr>satrec := Some (satrec_fields example_lib iss_tle (example_bundle WGS72))\<rparr>)"
    unfolding table_lib_def using t72 n l72 by (simp add: i step Let_def)
  have r84: "getnum (satrec_fields example_lib iss_tle (example_bundle WGS84)) ''radiusearthkm''
       = Fin 6378.137"
    by (simp add: satrec_fields_def example_bundle_def getnum_def Let_def)
  have r72: "getnum (satrec_fields example_lib iss_tle (example_bundle WGS72)) ''radiusearthkm''
       = Fin 6378.135"
    by (simp add: satrec_fields_def example_bundle_def getnum_def Let_def)
  show ?thesis
    unfolding d84 c84 c72 c99 using n l99 l84 r84 r72 by simp
qed


theorem model_name_ignored_after_first_call_witness:
  "[(Fin 0, Str ''wgs72'')] \<noteq> []
   \<and> TLE_sgp4 example_lib (propagate_all example_lib iss_tle [(Fin 0, Str ''wgs72'')])
        (Fin 86400000) (Str ''wgs84'')
     = TLE_sgp4 example_lib (propagate_all example_lib iss_tle [(Fin 0, Str ''wgs72'')])
        (Fin 86400000) Undefined
   \<and> TLE_sgp4 example_lib (propagate_all example_lib iss_tle [(Fin 0, Str ''wgs99'')])
        (Fin 86400000) (Str ''wgs84'')
     = TLE_sgp4 example_lib (propagate_all example_lib iss_tle [(Fin 0, Str ''wgs99'')])
        (Fin 86400000) (Str ''wgs72'')"
proof -
  have a: "[(Fin 0, Str ''wgs72'')] \<noteq> []" and b: "[(Fin 0, Str ''wgs99'')] \<noteq> []"
    by simp_all
  show ?thesis
    using a model_name_ignored_after_first_call [OF a, of example_lib iss_tle "Fin 86400000"
        "Str ''wgs84''" Undefined]
      model_name_ignored_after_first_call [OF b, of example_lib iss_tle "Fin 86400000"
        "Str ''wgs84''" "Str ''wgs72''"]
    by blast
qed


end
